theory Spec2Isabelle
  imports Complex_Main
begin

section \<open>PC-Builder: the test window (testwindow.cpp)\<close>

text \<open>
  A shallow embedding of \<^verbatim>\<open>TestWindow\<close>: the snap function, the slot that receives the
  checker's verdict, the drop handler and the mouse-press handler.

  Coordinates, sizes and the step counter are C++ \<^verbatim>\<open>int\<close>; they are modelled by \<^typ>\<open>int\<close>.
  The source compares them with literals; its only integer arithmetic is \<^verbatim>\<open>step - 1\<close> and
  \<^verbatim>\<open>step++\<close> on the step counter. Everything else is computed in \<^verbatim>\<open>double\<close> and converted
  back to \<^verbatim>\<open>int\<close>:
  \<^item> \<^verbatim>\<open>cursor.x() - .5 * lastSize.width()\<close>: both operands and the result are multiples of
    one half below \<open>2^33\<close>, so the \<^verbatim>\<open>double\<close> is the exact real number;
  \<^item> \<^verbatim>\<open>step / 6.0 * 100.0\<close>: the exact value is a whole number or lies one third away from
    the next whole number, far more than the rounding error of two \<^verbatim>\<open>double\<close> operations on a
    32-bit operand, so truncating the \<^verbatim>\<open>double\<close> and truncating the exact real agree.
  The conversion itself is C++'s truncation toward zero. It is defined when the truncated
  value fits \<^verbatim>\<open>int\<close>; \<open>newDrop_fits\<close> and \<open>percent_fits\<close> below show that it does for
  cursors within \<open>2^30\<close> of the origin, widget sizes up to Qt's maximum \<open>2^24 - 1\<close> and step
  counters within \<open>2^24\<close>. On those inputs the model computes what the source computes.
\<close>

subsection \<open>Qt value types\<close>

datatype QPoint = QPoint (qx: int) (qy: int)

datatype QSize = QSize (width: int) (height: int)

text \<open>The implicit conversion \<^verbatim>\<open>double\<close> to \<^verbatim>\<open>int\<close>: the fractional part is discarded.\<close>

definition int_of_double :: "real \<Rightarrow> int" where
  "int_of_double r = (if 0 \<le> r then \<lfloor>r\<rfloor> else \<lceil>r\<rceil>)"

text \<open>The range of a 32-bit \<^verbatim>\<open>int\<close>.\<close>

definition fitsInt :: "int \<Rightarrow> bool" where
  "fitsInt v \<longleftrightarrow> - 2147483648 \<le> v \<and> v \<le> 2147483647"

text \<open>
  \<^verbatim>\<open>QProgressBar\<close>: the range and the current value. \<^verbatim>\<open>setValue\<close> is Qt's: a value equal
  to the current one, or outside the range (unless the range is the undetermined \<open>0..0\<close>),
  is ignored.
\<close>

record QProgressBar =
  minimum :: int
  maximum :: int
  barValue :: int

definition setValue :: "QProgressBar \<Rightarrow> int \<Rightarrow> QProgressBar" where
  "setValue b v =
     (if barValue b = v \<or> ((v > maximum b \<or> v < minimum b) \<and> (maximum b \<noteq> 0 \<or> minimum b \<noteq> 0))
      then b else b\<lparr>barValue := v\<rparr>)"


text \<open>\<^verbatim>\<open>ui->progressLabel\<close>: whether it is shown, and its text.\<close>

record ProgressLabel =
  shown :: bool
  labelText :: string

subsection \<open>The window's fields\<close>

record TestWindow =
  lastSize :: QSize
  lastName :: string
  location :: QPoint
  dontMove :: "string list"
  reset :: bool
  progressBar :: QProgressBar
  progressLabel :: ProgressLabel

text \<open>
  The constructor. The progress bar and the text of the progress label come from the
  designer form (\<^verbatim>\<open>ui->setupUi\<close>), which is a parameter here; the constructor hides the
  label.
\<close>

definition TestWindow_new :: "QProgressBar \<Rightarrow> string \<Rightarrow> TestWindow" where
  "TestWindow_new bar txt =
     \<lparr>lastSize = QSize 0 0, lastName = ''none'', location = QPoint 0 0,
      dontMove = [''caseLabel'', ''centralwidget''], reset = False,
      progressBar = bar, progressLabel = \<lparr>shown = False, labelText = txt\<rparr>\<rparr>"

subsection \<open>snapLocation\<close>

text \<open>
  The initial value of the local \<^verbatim>\<open>newDrop\<close>:
  \<^verbatim>\<open>QPoint(cursor.x() - .5 * lastSize.width(), cursor.y() - .5 * lastSize.height())\<close>.
\<close>

definition newDrop :: "TestWindow \<Rightarrow> QPoint \<Rightarrow> QPoint" where
  "newDrop w cursor =
     QPoint (int_of_double (real_of_int (qx cursor) - 0.5 * real_of_int (width (lastSize w))))
            (int_of_double (real_of_int (qy cursor) - 0.5 * real_of_int (height (lastSize w))))"

text \<open>
  \<^verbatim>\<open>step\<close> is what \<^verbatim>\<open>emit getCurrentStep()\<close> returns (the checker's slot, a parameter).
  The branches and their order are the source's; a branch that assigns \<^verbatim>\<open>newDrop\<close> and
  breaks returns the same point as one that returns directly.
\<close>

definition snapLocation :: "TestWindow \<Rightarrow> int \<Rightarrow> QPoint \<Rightarrow> QPoint" where
  "snapLocation w step cursor =
     (if step = 1 then
        (if 150 \<le> qx cursor \<and> qx cursor \<le> 450 \<and> 290 \<le> qy cursor \<and> qy cursor \<le> 590
         then QPoint 200 245
         else newDrop w cursor)
      else if step = 2 \<or> step = 3 \<or> step = 4 \<or> step = 5 \<or> step = 6 then
        (if 315 \<le> qx cursor \<and> qx cursor \<le> 395 \<and> 295 \<le> qy cursor \<and> qy cursor \<le> 375
         then QPoint 315 295
         else if 260 \<le> qx cursor \<and> qx cursor \<le> 350 \<and> 370 \<le> qy cursor \<and> qy cursor \<le> 420
         then QPoint 260 370
         else if 300 \<le> qx cursor \<and> qx cursor \<le> 350 \<and> 430 \<le> qy cursor \<and> qy cursor \<le> 550
         then QPoint 200 370
         else if 420 \<le> qx cursor \<and> qx cursor \<le> 440 \<and> 280 \<le> qy cursor \<and> qy cursor \<le> 410
         then QPoint 423 270
         else if 440 \<le> qx cursor \<and> qx cursor \<le> 460 \<and> 280 \<le> qy cursor \<and> qy cursor \<le> 410
         then QPoint 443 270
         else newDrop w cursor)
      else newDrop w cursor)"

subsection \<open>The snap zones as a catalog\<close>

text \<open>
  The specification speaks of a catalog of zones, each a closed rectangle with a canonical
  point, looked up by stage. \<open>zonesAt\<close> lists the rectangles and points of the source's
  conditional chain in its order; \<open>snapByCatalog\<close> is the specification's engine over it
  (first matching zone, else the centred point). It is compared with \<open>snapLocation\<close> below.
\<close>

record Zone =
  x_min :: int
  x_max :: int
  y_min :: int
  y_max :: int
  canonical :: QPoint

definition motherboardZone :: Zone where
  "motherboardZone = \<lparr>x_min = 150, x_max = 450, y_min = 290, y_max = 590, canonical = QPoint 200 245\<rparr>"

definition cpuZone :: Zone where
  "cpuZone = \<lparr>x_min = 315, x_max = 395, y_min = 295, y_max = 375, canonical = QPoint 315 295\<rparr>"

definition memoryZone :: Zone where
  "memoryZone = \<lparr>x_min = 260, x_max = 350, y_min = 370, y_max = 420, canonical = QPoint 260 370\<rparr>"

definition gpuZone :: Zone where
  "gpuZone = \<lparr>x_min = 300, x_max = 350, y_min = 430, y_max = 550, canonical = QPoint 200 370\<rparr>"

definition ram1Zone :: Zone where
  "ram1Zone = \<lparr>x_min = 420, x_max = 440, y_min = 280, y_max = 410, canonical = QPoint 423 270\<rparr>"

definition ram2Zone :: Zone where
  "ram2Zone = \<lparr>x_min = 440, x_max = 460, y_min = 280, y_max = 410, canonical = QPoint 443 270\<rparr>"

definition zonesAt :: "int \<Rightarrow> Zone list" where
  "zonesAt step =
     (if step = 1 then [motherboardZone]
      else if 2 \<le> step \<and> step \<le> 6 then [cpuZone, memoryZone, gpuZone, ram1Zone, ram2Zone]
      else [])"

definition contains :: "Zone \<Rightarrow> QPoint \<Rightarrow> bool" where
  "contains z p \<longleftrightarrow> x_min z \<le> qx p \<and> qx p \<le> x_max z \<and> y_min z \<le> qy p \<and> qy p \<le> y_max z"

definition snapByCatalog :: "TestWindow \<Rightarrow> int \<Rightarrow> QPoint \<Rightarrow> QPoint" where
  "snapByCatalog w step cursor =
     (case find (\<lambda>z. contains z cursor) (zonesAt step) of
        Some z \<Rightarrow> canonical z
      | None \<Rightarrow> newDrop w cursor)"

subsection \<open>receiveAnswer\<close>

text \<open>
  The calls a handler makes on its collaborators (audio players, signals, widgets,
  dialogs), in the order of the source. The state of the widgets the window reads back (the
  progress bar, the progress label) is part of \<^typ>\<open>TestWindow\<close> as well.
\<close>

datatype Call =
    WinAudio_play
  | GoodAudio_play
  | BadAudio_play
  | Emit_completedTesting
  | ProgressBar_setValue int
  | ProgressLabel_show
  | ProgressLabel_hide
  | ProgressLabel_setText string
  | InfoBox_exec string string
  | Emit_checkAnswer string QPoint
  | Drag_exec
  | Child_close
  | Child_show

text \<open>
  \<open>cur\<close> is what \<^verbatim>\<open>emit getCurrentStep()\<close> returns during the call. In the second branch
  the source increments \<^verbatim>\<open>step\<close> and then divides \<^verbatim>\<open>step - 1\<close>.
\<close>

definition receiveAnswer ::
  "TestWindow \<Rightarrow> int \<Rightarrow> bool \<Rightarrow> string \<Rightarrow> string \<Rightarrow> QPoint \<Rightarrow> TestWindow \<times> Call list" where
  "receiveAnswer w cur correct rsn prt newLocation =
     (let step = cur - 1 in
      if step = 6 \<and> correct then
        (let w1 = w\<lparr>location := newLocation, dontMove := dontMove w @ [prt]\<rparr>;
             progress = real_of_int step / 6;
             v = int_of_double (progress * 100);
             w2 = w1\<lparr>progressBar := setValue (progressBar w1) v\<rparr>
         in if barValue (progressBar w2) = 100
            then (w2\<lparr>progressLabel := \<lparr>shown = True, labelText = ''Nice Job!''\<rparr>\<rparr>,
                  [WinAudio_play, Emit_completedTesting, ProgressBar_setValue v,
                   ProgressLabel_show, ProgressLabel_setText ''Nice Job!''])
            else (w2, [WinAudio_play, Emit_completedTesting, ProgressBar_setValue v]))
      else if correct then
        (let w1 = w\<lparr>location := newLocation, dontMove := dontMove w @ [prt]\<rparr>;
             step' = step + 1;
             progress = real_of_int (step' - 1) / 6;
             v = int_of_double (progress * 100);
             w2 = w1\<lparr>progressBar := setValue (progressBar w1) v\<rparr>
         in if barValue (progressBar w2) \<ge> 50
            then (w2\<lparr>progressLabel := \<lparr>shown = True, labelText = ''Almost There!''\<rparr>\<rparr>,
                  [GoodAudio_play, ProgressBar_setValue v,
                   ProgressLabel_show, ProgressLabel_setText ''Almost There!'',
                   InfoBox_exec ''Correct'' rsn])
            else (w2\<lparr>progressLabel := (progressLabel w2)\<lparr>shown := False\<rparr>\<rparr>,
                  [GoodAudio_play, ProgressBar_setValue v, ProgressLabel_hide,
                   InfoBox_exec ''Correct'' rsn]))
      else (w\<lparr>reset := True\<rparr>, [BadAudio_play, InfoBox_exec ''Incorrect'' rsn]))"

text \<open>
  The value \<open>receiveAnswer\<close> passes to the progress bar, as a function of \<^verbatim>\<open>step\<close>
  (both correct branches compute \<^verbatim>\<open>step / 6.0 * 100.0\<close> from \<open>cur - 1\<close>). It is used to
  state properties only.
\<close>

definition percent :: "int \<Rightarrow> int" where
  "percent step = int_of_double (real_of_int step / 6 * 100)"

text \<open>
  One \<^verbatim>\<open>sendAnswer\<close> of the checker: the step it reports during the slot and the four
  arguments of the signal. The checker itself is not part of the sources; what it sends is
  an input.
\<close>

record Answer =
  stepNow :: int
  correctness :: bool
  reason :: string
  part :: string
  answerLocation :: QPoint

definition deliver :: "TestWindow \<Rightarrow> Answer \<Rightarrow> TestWindow \<times> Call list" where
  "deliver w a = receiveAnswer w (stepNow a) (correctness a) (reason a) (part a) (answerLocation a)"

text \<open>A sequence of answers, each received in the state the previous one left.\<close>

fun deliverAll :: "TestWindow \<Rightarrow> Answer list \<Rightarrow> (TestWindow \<times> Call list) list" where
  "deliverAll w [] = []"
| "deliverAll w (a # as) = deliver w a # deliverAll (fst (deliver w a)) as"

text \<open>
  The checker's counter as the window expects it: it starts at \<open>c\<close>, and a correct
  placement advances it by one before the answer is sent (so that the last of six correct
  placements reports 7); an incorrect placement leaves it. It is a hypothesis on the
  answers, used where a property speaks of the number of locked components.
\<close>

fun countsCorrect :: "int \<Rightarrow> Answer list \<Rightarrow> bool" where
  "countsCorrect c [] = True"
| "countsCorrect c (a # as) =
     (if correctness a then stepNow a = c + 1 \<and> countsCorrect (c + 1) as
      else stepNow a = c \<and> countsCorrect c as)"

text \<open>The values passed to \<^verbatim>\<open>progressBar->setValue\<close> in a list of calls.\<close>

fun written :: "Call list \<Rightarrow> int list" where
  "written [] = []"
| "written (ProgressBar_setValue v # cs) = v # written cs"
| "written (c # cs) = written cs"

subsection \<open>dropEvent and mousePressEvent\<close>









subsection \<open>Windows used in examples\<close>

text \<open>A progress bar with Qt's default range, at zero, and a freshly constructed window.\<close>

definition emptyBar :: QProgressBar where
  "emptyBar = \<lparr>minimum = 0, maximum = 100, barValue = 0\<rparr>"

definition window0 :: TestWindow where
  "window0 = TestWindow_new emptyBar ''''"

section \<open>Arithmetic of the conversions\<close>

lemma int_of_double_quotient:
  assumes "0 < d"
  shows "int_of_double (real_of_int n / real_of_int d) = (if 0 \<le> n then n div d else - ((- n) div d))"
proof (cases "0 \<le> n")
  case True
  with assms have "0 \<le> real_of_int n / real_of_int d" by simp
  then show ?thesis
    using True by (simp add: int_of_double_def floor_divide_of_int_eq)
next
  case False
  with assms have "\<not> 0 \<le> real_of_int n / real_of_int d"
    by (simp add: divide_less_0_iff not_le)
  then show ?thesis
    using False by (simp add: int_of_double_def ceiling_divide_eq_div)
qed

lemma int_of_double_half:
  "int_of_double (real_of_int a - 0.5 * real_of_int b) =
     (if b \<le> 2 * a then (2 * a - b) div 2 else - ((b - 2 * a) div 2))"
proof -
  have e: "real_of_int a - 0.5 * real_of_int b = real_of_int (2 * a - b) / real_of_int 2" by simp
  show ?thesis
    unfolding e using int_of_double_quotient [of 2 "2 * a - b"] by simp
qed

lemma newDrop_int:
  "newDrop w c =
     QPoint (if width (lastSize w) \<le> 2 * qx c then (2 * qx c - width (lastSize w)) div 2
             else - ((width (lastSize w) - 2 * qx c) div 2))
            (if height (lastSize w) \<le> 2 * qy c then (2 * qy c - height (lastSize w)) div 2
             else - ((height (lastSize w) - 2 * qy c) div 2))"
  unfolding newDrop_def int_of_double_half by (rule refl)

lemma half_fits:
  assumes "- 1073741824 \<le> a" "a \<le> 1073741824" "0 \<le> b" "b \<le> 16777215"
  shows "fitsInt (if b \<le> 2 * a then (2 * a - b) div 2 else - ((b - 2 * a) div 2))"
  using assms unfolding fitsInt_def by (cases "b \<le> 2 * a") (simp_all, linarith+)

lemma newDrop_fits:
  assumes "- 1073741824 \<le> qx c" "qx c \<le> 1073741824" "- 1073741824 \<le> qy c" "qy c \<le> 1073741824"
    and "0 \<le> width (lastSize w)" "width (lastSize w) \<le> 16777215"
    and "0 \<le> height (lastSize w)" "height (lastSize w) \<le> 16777215"
  shows "fitsInt (qx (newDrop w c)) \<and> fitsInt (qy (newDrop w c))"
  unfolding newDrop_int using assms by (simp add: half_fits)

section \<open>snapLocation and the zone catalog\<close>

lemma steps_2_to_6: "(s = 2 \<or> s = 3 \<or> s = 4 \<or> s = 5 \<or> s = 6) \<longleftrightarrow> 2 \<le> s \<and> s \<le> (6::int)"
  by arith

lemmas zone_defs = motherboardZone_def cpuZone_def memoryZone_def gpuZone_def ram1Zone_def ram2Zone_def

lemma contains_zones:
  "(150 \<le> qx c \<and> qx c \<le> 450 \<and> 290 \<le> qy c \<and> qy c \<le> 590) = contains motherboardZone c"
  "(315 \<le> qx c \<and> qx c \<le> 395 \<and> 295 \<le> qy c \<and> qy c \<le> 375) = contains cpuZone c"
  "(260 \<le> qx c \<and> qx c \<le> 350 \<and> 370 \<le> qy c \<and> qy c \<le> 420) = contains memoryZone c"
  "(300 \<le> qx c \<and> qx c \<le> 350 \<and> 430 \<le> qy c \<and> qy c \<le> 550) = contains gpuZone c"
  "(420 \<le> qx c \<and> qx c \<le> 440 \<and> 280 \<le> qy c \<and> qy c \<le> 410) = contains ram1Zone c"
  "(440 \<le> qx c \<and> qx c \<le> 460 \<and> 280 \<le> qy c \<and> qy c \<le> 410) = contains ram2Zone c"
  by (simp_all add: contains_def zone_defs)

text \<open>The source's conditions are the containment tests of the six rectangles.\<close>

lemma snapLocation_zones:
  "snapLocation w s c =
     (if s = 1 then (if contains motherboardZone c then QPoint 200 245 else newDrop w c)
      else if 2 \<le> s \<and> s \<le> 6 then
        (if contains cpuZone c then QPoint 315 295
         else if contains memoryZone c then QPoint 260 370
         else if contains gpuZone c then QPoint 200 370
         else if contains ram1Zone c then QPoint 423 270
         else if contains ram2Zone c then QPoint 443 270
         else newDrop w c)
      else newDrop w c)"
  unfolding snapLocation_def contains_zones steps_2_to_6 by (rule refl)

lemma canonical_zones:
  "canonical motherboardZone = QPoint 200 245" "canonical cpuZone = QPoint 315 295"
  "canonical memoryZone = QPoint 260 370" "canonical gpuZone = QPoint 200 370"
  "canonical ram1Zone = QPoint 423 270" "canonical ram2Zone = QPoint 443 270"
  by (simp_all add: zone_defs)

text \<open>The source's chain computes what the catalog engine computes.\<close>

lemma snapLocation_catalog: "snapLocation w s c = snapByCatalog w s c"
  unfolding snapLocation_zones snapByCatalog_def zonesAt_def
  by (simp add: canonical_zones)

lemma snap_no_zone:
  assumes "\<forall>z\<in>set (zonesAt s). \<not> contains z c"
  shows "snapLocation w s c = newDrop w c"
proof -
  from assms have "find (\<lambda>z. contains z c) (zonesAt s) = None"
    by (simp add: find_None_iff)
  then show ?thesis by (simp add: snapLocation_catalog snapByCatalog_def)
qed

lemma find_after_misses:
  assumes "\<forall>x\<in>set before. \<not> P x" "P z"
  shows "find P (before @ z # after) = Some z"
  using assms by (induction before) simp_all

lemma snap_decomposed:
  assumes "zonesAt s = before @ z # after" "contains z c" "\<forall>z'\<in>set before. \<not> contains z' c"
  shows "snapLocation w s c = canonical z"
proof -
  have "find (\<lambda>z. contains z c) (zonesAt s) = Some z"
    unfolding assms(1) using assms(3) assms(2) by (rule find_after_misses)
  then show ?thesis by (simp add: snapLocation_catalog snapByCatalog_def)
qed

text \<open>
  C1 (as amended). At every stage, for every zone of the stage and every cursor inside its
  closed rectangle (boundaries included) that lies in no zone listed before it,
  \<open>snapLocation\<close> returns exactly the zone's canonical point, wherever in the rectangle the
  cursor is and whatever the size of the dragged component. (\<open>zonesAt\<close> is the motherboard
  zone at stage 1, and the CPU, memory, GPU and two RAM zones at stages 2 to 6.)
\<close>

theorem snap_zone_canonical:
  assumes "zonesAt s = before @ z # after"
    and "contains z c"
    and "\<forall>z'\<in>set before. \<not> contains z' c"
  shows "snapLocation w s c = canonical z"
  using assms by (rule snap_decomposed)

text \<open>An instance: the second RAM zone at stage 2, with an icon of 20 by 130.\<close>

theorem snap_zone_canonical_witness:
  "snapLocation (window0\<lparr>lastSize := QSize 20 130\<rparr>) 2 (QPoint 450 300) = QPoint 443 270"
  using snap_zone_canonical [of 2 "[cpuZone, memoryZone, gpuZone, ram1Zone]" ram2Zone "[]" "QPoint 450 300"
      "window0\<lparr>lastSize := QSize 20 130\<rparr>"]
  by (simp add: zonesAt_def contains_def zone_defs)

text \<open>
  C1 as stated fails where rectangles overlap: the cursor \<open>(440, 300)\<close> is inside the
  second RAM zone \<open>[440,460] x [280,410]\<close>, active at stage 2, and the result is the first RAM
  zone's point \<open>(423, 270)\<close>, not \<open>(443, 270)\<close>.
\<close>

theorem snap_zone_canonical_counterexample:
  "ram2Zone \<in> set (zonesAt 2) \<and> contains ram2Zone (QPoint 440 300) \<and>
   canonical ram2Zone = QPoint 443 270 \<and>
   snapLocation window0 2 (QPoint 440 300) = QPoint 423 270 \<and>
   snapLocation window0 2 (QPoint 440 300) \<noteq> canonical ram2Zone"
  by (simp add: snapLocation_def zonesAt_def contains_def zone_defs)

text \<open>
  C8. When the cursor lies in more than one zone of the current step, the result is the
  canonical point of the first of them in the order of the chain: for zones \<open>z1\<close> before
  \<open>z2\<close> that both contain the cursor, with no zone before \<open>z1\<close> containing it, the result is
  \<open>z1\<close>'s point. At steps 2 to 6, a cursor with \<open>x = 440\<close> and \<open>280 \<le> y \<le> 410\<close> is in both
  RAM rectangles and yields \<open>(423, 270)\<close>; a cursor with \<open>315 \<le> x \<le> 350\<close> and
  \<open>370 \<le> y \<le> 375\<close> is in the CPU and the memory rectangle and yields \<open>(315, 295)\<close>. The
  function is total: it returns a point on every input.
\<close>

theorem snap_overlap_first_wins:
  "(zonesAt s = before @ z1 # mid @ z2 # after \<and> contains z1 c \<and> contains z2 c \<and>
      (\<forall>z\<in>set before. \<not> contains z c) \<longrightarrow> snapLocation w s c = canonical z1) \<and>
   (2 \<le> s \<and> s \<le> 6 \<and> 280 \<le> y \<and> y \<le> 410 \<longrightarrow>
      contains ram1Zone (QPoint 440 y) \<and> contains ram2Zone (QPoint 440 y) \<and>
      snapLocation w s (QPoint 440 y) = QPoint 423 270) \<and>
   (2 \<le> s \<and> s \<le> 6 \<and> 315 \<le> x \<and> x \<le> 350 \<and> 370 \<le> y' \<and> y' \<le> 375 \<longrightarrow>
      contains cpuZone (QPoint x y') \<and> contains memoryZone (QPoint x y') \<and>
      snapLocation w s (QPoint x y') = QPoint 315 295)"
proof (intro conjI impI)
  assume a: "zonesAt s = before @ z1 # mid @ z2 # after \<and> contains z1 c \<and> contains z2 c \<and>
      (\<forall>z\<in>set before. \<not> contains z c)"
  then have "zonesAt s = before @ z1 # (mid @ z2 # after)" by simp
  with a show "snapLocation w s c = canonical z1" by (blast intro: snap_decomposed)
next
  assume a: "2 \<le> s \<and> s \<le> 6 \<and> 280 \<le> y \<and> y \<le> 410"
  then show "contains ram1Zone (QPoint 440 y)" "contains ram2Zone (QPoint 440 y)"
    by (simp_all add: contains_def ram1Zone_def ram2Zone_def)
  from a show "snapLocation w s (QPoint 440 y) = QPoint 423 270"
    by (simp add: snapLocation_zones contains_def zone_defs)
next
  assume a: "2 \<le> s \<and> s \<le> 6 \<and> 315 \<le> x \<and> x \<le> 350 \<and> 370 \<le> y' \<and> y' \<le> 375"
  then show "contains cpuZone (QPoint x y')" "contains memoryZone (QPoint x y')"
    by (simp_all add: contains_def cpuZone_def memoryZone_def)
  from a show "snapLocation w s (QPoint x y') = QPoint 315 295"
    by (simp add: snapLocation_zones contains_def zone_defs)
qed

text \<open>Instances: \<open>(440, 300)\<close> in both RAM zones, \<open>(320, 372)\<close> in the CPU and memory zones.\<close>

theorem snap_overlap_first_wins_witness:
  "snapLocation window0 2 (QPoint 440 300) = canonical ram1Zone \<and>
   contains ram1Zone (QPoint 440 300) \<and> contains ram2Zone (QPoint 440 300) \<and>
   snapLocation window0 3 (QPoint 440 300) = QPoint 423 270 \<and>
   contains cpuZone (QPoint 320 372) \<and> contains memoryZone (QPoint 320 372) \<and>
   snapLocation window0 3 (QPoint 320 372) = QPoint 315 295"
  using snap_overlap_first_wins [of 2 "[cpuZone, memoryZone, gpuZone]" ram1Zone "[]" ram2Zone "[]"
      "QPoint 440 300" window0 300 320 372]
    snap_overlap_first_wins [of 3 "[cpuZone, memoryZone, gpuZone]" ram1Zone "[]" ram2Zone "[]"
      "QPoint 440 300" window0 300 320 372]
  by (simp add: zonesAt_def contains_def zone_defs)

text \<open>
  C7 (as amended). For every cursor point contained in no zone active at the current step
  (any step, also one outside 1 to 6), \<open>snapLocation\<close> returns the point centred under the
  cursor with the last recorded size of the dragged component, each coordinate converted to
  an integer by truncation toward zero. When the width and the height are even this is
  exactly \<open>(cursor.x - width/2, cursor.y - height/2)\<close>.
\<close>

theorem snap_fallback_centred:
  assumes "\<forall>z\<in>set (zonesAt s). \<not> contains z c"
  shows "snapLocation w s c =
           QPoint (int_of_double (real_of_int (qx c) - real_of_int (width (lastSize w)) / 2))
                  (int_of_double (real_of_int (qy c) - real_of_int (height (lastSize w)) / 2)) \<and>
         (even (width (lastSize w)) \<and> even (height (lastSize w)) \<longrightarrow>
            snapLocation w s c =
              QPoint (qx c - width (lastSize w) div 2) (qy c - height (lastSize w) div 2))"
proof -
  have d: "snapLocation w s c = newDrop w c"
    using assms by (rule snap_no_zone)
  have "newDrop w c =
           QPoint (int_of_double (real_of_int (qx c) - real_of_int (width (lastSize w)) / 2))
                  (int_of_double (real_of_int (qy c) - real_of_int (height (lastSize w)) / 2))"
    by (simp add: newDrop_def)
  moreover have "newDrop w c = QPoint (qx c - width (lastSize w) div 2) (qy c - height (lastSize w) div 2)"
    if "even (width (lastSize w)) \<and> even (height (lastSize w))"
  proof -
    from that obtain a b where ab: "width (lastSize w) = 2 * a" "height (lastSize w) = 2 * b"
      by (auto elim!: dvdE)
    show ?thesis unfolding newDrop_int ab by auto
  qed
  ultimately show ?thesis using d by simp
qed

text \<open>Instances: an icon of 80 by 60 dropped at \<open>(600, 100)\<close>, and one of 3 by 3 at step 7.\<close>

theorem snap_fallback_centred_witness:
  "snapLocation (window0\<lparr>lastSize := QSize 80 60\<rparr>) 1 (QPoint 600 100) = QPoint 560 70 \<and>
   snapLocation (window0\<lparr>lastSize := QSize 3 3\<rparr>) 7 (QPoint 10 10) = QPoint 8 8"
  using snap_fallback_centred [of 1 "QPoint 600 100" "window0\<lparr>lastSize := QSize 80 60\<rparr>"]
    snap_fallback_centred [of 7 "QPoint 10 10" "window0\<lparr>lastSize := QSize 3 3\<rparr>"]
  by (simp add: zonesAt_def contains_def zone_defs int_of_double_def)

text \<open>
  C7 as stated fails for an odd size: with a size of 3 by 3 and the cursor at \<open>(10, 10)\<close>,
  outside the only zone of step 1, the result is \<open>(8, 8)\<close>. That is neither the point
  \<open>(10 - 3/2, 10 - 3/2)\<close> with the integer quotient \<open>3/2 = 1\<close>, nor the exact centre \<open>8.5\<close>.
\<close>

theorem snap_fallback_centred_counterexample:
  "find (\<lambda>z. contains z (QPoint 10 10)) (zonesAt 1) = None \<and>
   snapLocation (window0\<lparr>lastSize := QSize 3 3\<rparr>) 1 (QPoint 10 10) = QPoint 8 8 \<and>
   QPoint 8 8 \<noteq> QPoint (10 - 3 div 2) (10 - 3 div 2) \<and>
   real_of_int 8 \<noteq> 10 - 3 / 2"
  by (simp add: snapLocation_def newDrop_def int_of_double_def zonesAt_def contains_def zone_defs)

text \<open>
  C9 (as amended). For every cursor point outside all zones active at the current step,
  \<open>snapLocation\<close> returns the centred point \<open>newDrop\<close>, not the raw cursor point: the result
  is the raw cursor point when the last recorded size is 0 by 0, and differs from it
  whenever the width or the height is at least 2.
\<close>

theorem snap_miss_moves_cursor:
  assumes "\<forall>z\<in>set (zonesAt s). \<not> contains z c"
  shows "snapLocation w s c = newDrop w c \<and>
         (lastSize w = QSize 0 0 \<longrightarrow> snapLocation w s c = c) \<and>
         (2 \<le> width (lastSize w) \<or> 2 \<le> height (lastSize w) \<longrightarrow> snapLocation w s c \<noteq> c)"
proof -
  have d: "snapLocation w s c = newDrop w c"
    using assms by (rule snap_no_zone)
  obtain x y where c: "c = QPoint x y" by (cases c)
  obtain a b where sz: "lastSize w = QSize a b" by (cases "lastSize w")
  have "(lastSize w = QSize 0 0 \<longrightarrow> newDrop w c = c) \<and>
        (2 \<le> width (lastSize w) \<or> 2 \<le> height (lastSize w) \<longrightarrow> newDrop w c \<noteq> c)"
    unfolding newDrop_int unfolding c sz by auto
  with d show ?thesis by simp
qed

text \<open>Instances: the fresh window (size 0 by 0), and an icon of 80 by 80.\<close>

theorem snap_miss_moves_cursor_witness:
  "snapLocation window0 1 (QPoint 600 100) = QPoint 600 100 \<and>
   snapLocation (window0\<lparr>lastSize := QSize 80 80\<rparr>) 1 (QPoint 600 100) \<noteq> QPoint 600 100"
proof -
  have miss: "\<forall>z\<in>set (zonesAt 1). \<not> contains z (QPoint 600 100)"
    by (simp add: zonesAt_def contains_def zone_defs)
  have "lastSize window0 = QSize 0 0"
    by (simp add: window0_def TestWindow_new_def)
  with snap_miss_moves_cursor [OF miss, of window0]
  have "snapLocation window0 1 (QPoint 600 100) = QPoint 600 100"
    by blast
  moreover have "2 \<le> width (lastSize (window0\<lparr>lastSize := QSize 80 80\<rparr>))"
    by simp
  with snap_miss_moves_cursor [OF miss, of "window0\<lparr>lastSize := QSize 80 80\<rparr>"]
  have "snapLocation (window0\<lparr>lastSize := QSize 80 80\<rparr>) 1 (QPoint 600 100) \<noteq> QPoint 600 100"
    by blast
  ultimately show ?thesis by (rule conjI)
qed

text \<open>
  C9 as stated fails: an icon of 80 by 80 dropped at \<open>(600, 100)\<close>, outside the only zone of
  step 1, lands at \<open>(560, 60)\<close>, not at the drop point.
\<close>

theorem snap_miss_unmodified_counterexample:
  "find (\<lambda>z. contains z (QPoint 600 100)) (zonesAt 1) = None \<and>
   snapLocation (window0\<lparr>lastSize := QSize 80 80\<rparr>) 1 (QPoint 600 100) = QPoint 560 60 \<and>
   snapLocation (window0\<lparr>lastSize := QSize 80 80\<rparr>) 1 (QPoint 600 100) \<noteq> QPoint 600 100"
  by (simp add: snapLocation_def newDrop_def int_of_double_def zonesAt_def contains_def zone_defs)

text \<open>
  C10 (as amended). The snapped point depends on the cursor, the step and the last recorded
  size only: two windows that agree on \<open>lastSize\<close> (and differ in the dragged component's
  name or in anything else) get the same point, and changing \<open>lastName\<close> changes nothing.
  So a component of any name dropped inside another component's zone, and in no zone
  tested before it, snaps to that zone's canonical point.
\<close>

theorem snap_component_agnostic:
  "(lastSize w1 = lastSize w2 \<longrightarrow> snapLocation w1 s c = snapLocation w2 s c) \<and>
   snapLocation (w\<lparr>lastName := n\<rparr>) s c = snapLocation w s c \<and>
   (zonesAt s = before @ z # after \<and> contains z c \<and> (\<forall>z'\<in>set before. \<not> contains z' c) \<longrightarrow>
      snapLocation (w\<lparr>lastName := n\<rparr>) s c = canonical z)"
proof (intro conjI impI)
  assume "lastSize w1 = lastSize w2"
  then have nd: "newDrop w1 c = newDrop w2 c"
    by (simp add: newDrop_def)
  show "snapLocation w1 s c = snapLocation w2 s c"
    unfolding snapLocation_def nd by (rule refl)
next
  have nd: "newDrop (w\<lparr>lastName := n\<rparr>) c = newDrop w c"
    by (simp add: newDrop_def)
  show "snapLocation (w\<lparr>lastName := n\<rparr>) s c = snapLocation w s c"
    unfolding snapLocation_def nd by (rule refl)
next
  assume "zonesAt s = before @ z # after \<and> contains z c \<and> (\<forall>z'\<in>set before. \<not> contains z' c)"
  then show "snapLocation (w\<lparr>lastName := n\<rparr>) s c = canonical z"
    by (blast intro: snap_decomposed)
qed

text \<open>
  Instances: the GPU and the CPU icon, both 80 by 80, dropped at the same point; and the
  GPU icon dropped inside the CPU zone.
\<close>

theorem snap_component_agnostic_witness:
  "snapLocation (window0\<lparr>lastName := ''gpuLabel'', lastSize := QSize 80 80, location := QPoint 600 300\<rparr>) 2 (QPoint 600 100) =
   snapLocation (window0\<lparr>lastName := ''cpuLabel'', lastSize := QSize 80 80, location := QPoint 600 100\<rparr>) 2 (QPoint 600 100) \<and>
   snapLocation (window0\<lparr>lastName := ''gpuLabel''\<rparr>) 2 (QPoint 320 300) = canonical cpuZone"
proof (rule conjI)
  have "lastSize (window0\<lparr>lastName := ''gpuLabel'', lastSize := QSize 80 80, location := QPoint 600 300\<rparr>) =
        lastSize (window0\<lparr>lastName := ''cpuLabel'', lastSize := QSize 80 80, location := QPoint 600 100\<rparr>)"
    by simp
  with snap_component_agnostic
     [where ?w1.0 = "window0\<lparr>lastName := ''gpuLabel'', lastSize := QSize 80 80, location := QPoint 600 300\<rparr>"
        and ?w2.0 = "window0\<lparr>lastName := ''cpuLabel'', lastSize := QSize 80 80, location := QPoint 600 100\<rparr>"
        and s = 2 and c = "QPoint 600 100"]
  show "snapLocation (window0\<lparr>lastName := ''gpuLabel'', lastSize := QSize 80 80, location := QPoint 600 300\<rparr>) 2 (QPoint 600 100) =
        snapLocation (window0\<lparr>lastName := ''cpuLabel'', lastSize := QSize 80 80, location := QPoint 600 100\<rparr>) 2 (QPoint 600 100)"
    by blast
next
  have "zonesAt 2 = [] @ cpuZone # [memoryZone, gpuZone, ram1Zone, ram2Zone] \<and>
        contains cpuZone (QPoint 320 300) \<and> (\<forall>z'\<in>set []. \<not> contains z' (QPoint 320 300))"
    by (simp add: zonesAt_def contains_def cpuZone_def)
  with snap_component_agnostic
     [where s = 2 and c = "QPoint 320 300" and w = window0 and n = "''gpuLabel''" and before = "[]"
        and z = cpuZone and after = "[memoryZone, gpuZone, ram1Zone, ram2Zone]"]
  show "snapLocation (window0\<lparr>lastName := ''gpuLabel''\<rparr>) 2 (QPoint 320 300) = canonical cpuZone"
    by blast
qed

text \<open>
  C10 as stated fails in its last part where zones overlap: at step 2 the GPU icon dropped
  at \<open>(320, 372)\<close>, inside the memory zone \<open>[260,350] x [370,420]\<close>, does not snap to the
  memory zone's point \<open>(260, 370)\<close> but to the CPU zone's \<open>(315, 295)\<close>, the CPU zone being
  tested first.
\<close>

theorem snap_component_agnostic_counterexample:
  "memoryZone \<in> set (zonesAt 2) \<and> contains memoryZone (QPoint 320 372) \<and>
   canonical memoryZone = QPoint 260 370 \<and>
   snapLocation (window0\<lparr>lastName := ''gpuLabel'', lastSize := QSize 100 60\<rparr>) 2 (QPoint 320 372) =
     QPoint 315 295 \<and>
   snapLocation (window0\<lparr>lastName := ''gpuLabel'', lastSize := QSize 100 60\<rparr>) 2 (QPoint 320 372) \<noteq>
     canonical memoryZone"
  by (simp add: snapLocation_def zonesAt_def contains_def zone_defs)

text \<open>
  C6 (as amended). The zones tested depend on the step, and a zone is not tested outside
  its steps. At step 1 the result is the motherboard point \<open>(200, 245)\<close> when the cursor is
  inside \<open>[150,450] x [290,590]\<close> and the centred point otherwise; a canonical point of
  steps 2 to 6 is returned only when the cursor is outside the motherboard rectangle and the
  centred point itself is that point. At steps 2 to 6 a cursor inside the motherboard
  rectangle and outside the CPU, memory, GPU and RAM rectangles gets the centred point
  (which is \<open>(200, 245)\<close> only if the centred point itself is).
\<close>

theorem snap_stage_gating:
  "snapLocation w 1 c = (if contains motherboardZone c then QPoint 200 245 else newDrop w c) \<and>
   (snapLocation w 1 c \<in> {QPoint 315 295, QPoint 260 370, QPoint 200 370, QPoint 423 270, QPoint 443 270} \<longrightarrow>
      \<not> contains motherboardZone c \<and> newDrop w c = snapLocation w 1 c) \<and>
   (2 \<le> s \<and> s \<le> 6 \<and> contains motherboardZone c \<and> \<not> contains cpuZone c \<and> \<not> contains memoryZone c \<and>
    \<not> contains gpuZone c \<and> \<not> contains ram1Zone c \<and> \<not> contains ram2Zone c \<longrightarrow>
      snapLocation w s c = newDrop w c)"
proof (intro conjI impI)
  show one: "snapLocation w 1 c = (if contains motherboardZone c then QPoint 200 245 else newDrop w c)"
    by (simp only: snapLocation_zones simp_thms if_True)
  assume "snapLocation w 1 c \<in> {QPoint 315 295, QPoint 260 370, QPoint 200 370, QPoint 423 270, QPoint 443 270}"
  then have ne: "snapLocation w 1 c \<noteq> QPoint 200 245"
    by auto
  with one show "\<not> contains motherboardZone c"
    by (cases "contains motherboardZone c") simp_all
  with one show "newDrop w c = snapLocation w 1 c"
    by simp
next
  assume a: "2 \<le> s \<and> s \<le> 6 \<and> contains motherboardZone c \<and> \<not> contains cpuZone c \<and>
    \<not> contains memoryZone c \<and> \<not> contains gpuZone c \<and> \<not> contains ram1Zone c \<and> \<not> contains ram2Zone c"
  then have "s \<noteq> 1" by simp
  with a show "snapLocation w s c = newDrop w c"
    by (simp only: snapLocation_zones if_True if_False simp_thms)
qed

text \<open>
  Instances: a cursor in the CPU rectangle at step 1 snaps to the motherboard point; a
  cursor in the motherboard rectangle only, at step 2, gets the centred point.
\<close>

theorem snap_stage_gating_witness:
  "snapLocation window0 1 (QPoint 320 300) = QPoint 200 245 \<and>
   snapLocation (window0\<lparr>lastSize := QSize 20 30\<rparr>) 1 (QPoint 433 285) =
     newDrop (window0\<lparr>lastSize := QSize 20 30\<rparr>) (QPoint 433 285) \<and>
   snapLocation (window0\<lparr>lastSize := QSize 80 80\<rparr>) 2 (QPoint 200 500) = QPoint 160 460"
  using snap_stage_gating [of window0 "QPoint 320 300" 2 ]
    snap_stage_gating [of "window0\<lparr>lastSize := QSize 20 30\<rparr>" "QPoint 433 285" 2]
    snap_stage_gating [of "window0\<lparr>lastSize := QSize 80 80\<rparr>" "QPoint 200 500" 2]
  by (simp add: contains_def zone_defs newDrop_def int_of_double_def)

text \<open>
  C6 as stated fails in its two "never" parts, through the centred point. At step 1 an
  icon of 20 by 30 dropped at \<open>(433, 285)\<close>, above the motherboard rectangle, lands at
  \<open>(423, 270)\<close>, the first RAM zone's canonical point. At step 2 an icon of 100 by 510
  dropped at \<open>(250, 500)\<close>, inside the motherboard rectangle and outside the five others,
  lands at \<open>(200, 245)\<close>.
\<close>

theorem snap_stage_gating_counterexample:
  "\<not> contains motherboardZone (QPoint 433 285) \<and>
   snapLocation (window0\<lparr>lastSize := QSize 20 30\<rparr>) 1 (QPoint 433 285) = canonical ram1Zone \<and>
   contains motherboardZone (QPoint 250 500) \<and>
   find (\<lambda>z. contains z (QPoint 250 500)) (zonesAt 2) = None \<and>
   snapLocation (window0\<lparr>lastSize := QSize 100 510\<rparr>) 2 (QPoint 250 500) = QPoint 200 245"
  by (simp add: snapLocation_def newDrop_def int_of_double_def zonesAt_def contains_def zone_defs)

section \<open>receiveAnswer\<close>

lemma percent_int:
  "percent k = (if 0 \<le> k then (100 * k) div 6 else - ((100 * - k) div 6))"
proof -
  have e: "real_of_int k / 6 * 100 = real_of_int (100 * k) / real_of_int 6" by simp
  show ?thesis
    unfolding percent_def e using int_of_double_quotient [of 6 "100 * k"] by simp
qed

lemma percent_full: "percent k = 100 \<longleftrightarrow> k = 6"
  unfolding percent_int by (cases "0 \<le> k") auto

lemma percent_mono:
  assumes "j \<le> k"
  shows "percent j \<le> percent k"
proof -
  have "100 * j div 6 \<le> 100 * k div 6" if "0 \<le> j"
    using assms by (intro zdiv_mono1) simp_all
  moreover have "- (100 * - j div 6) \<le> 100 * k div 6" if "j < 0" "0 \<le> k"
  proof -
    have "0 \<le> 100 * - j div 6" using that by (intro pos_imp_zdiv_nonneg_iff [THEN iffD2]) simp_all
    moreover have "0 \<le> 100 * k div 6" using that by (intro pos_imp_zdiv_nonneg_iff [THEN iffD2]) simp_all
    ultimately show ?thesis by linarith
  qed
  moreover have "- (100 * - j div 6) \<le> - (100 * - k div 6)" if "k < 0"
  proof -
    have "100 * - k div 6 \<le> 100 * - j div 6"
      using assms by (intro zdiv_mono1) simp_all
    then show ?thesis by simp
  qed
  ultimately show ?thesis
    unfolding percent_int using assms by auto
qed

lemma percent_range:
  assumes "0 \<le> k" "k \<le> 6"
  shows "percent k = (100 * k) div 6"
    and "0 \<le> percent k" and "percent k \<le> 100"
  using assms unfolding percent_int by simp_all

lemma percent_fits:
  assumes "- 16777216 \<le> k" "k \<le> 16777216"
  shows "fitsInt (percent k)"
  using assms unfolding percent_int fitsInt_def by (cases "0 \<le> k") (simp_all, linarith+)

text \<open>The three branches of \<open>receiveAnswer\<close>, with \<open>v\<close> the value passed to the bar.\<close>

lemma receiveAnswer_final:
  assumes "cur - 1 = 6"
  shows "receiveAnswer w cur True rsn prt loc =
     (let w2 = w\<lparr>location := loc, dontMove := dontMove w @ [prt],
                   progressBar := setValue (progressBar w) 100\<rparr>
      in if barValue (setValue (progressBar w) 100) = 100
         then (w2\<lparr>progressLabel := \<lparr>shown = True, labelText = ''Nice Job!''\<rparr>\<rparr>,
               [WinAudio_play, Emit_completedTesting, ProgressBar_setValue 100,
                ProgressLabel_show, ProgressLabel_setText ''Nice Job!''])
         else (w2, [WinAudio_play, Emit_completedTesting, ProgressBar_setValue 100]))"
proof -
  have "percent (cur - 1) = 100"
    using assms by (simp only: percent_full)
  then have v: "int_of_double (real_of_int (cur - 1) / 6 * 100) = 100"
    by (simp only: percent_def)
  show ?thesis
    unfolding receiveAnswer_def Let_def using assms v by simp
qed

lemma receiveAnswer_correct:
  assumes "cur - 1 \<noteq> 6"
  shows "receiveAnswer w cur True rsn prt loc =
     (let v = percent (cur - 1);
          w2 = w\<lparr>location := loc, dontMove := dontMove w @ [prt],
                   progressBar := setValue (progressBar w) v\<rparr>
      in if barValue (setValue (progressBar w) v) \<ge> 50
         then (w2\<lparr>progressLabel := \<lparr>shown = True, labelText = ''Almost There!''\<rparr>\<rparr>,
               [GoodAudio_play, ProgressBar_setValue v,
                ProgressLabel_show, ProgressLabel_setText ''Almost There!'',
                InfoBox_exec ''Correct'' rsn])
         else (w2\<lparr>progressLabel := (progressLabel w)\<lparr>shown := False\<rparr>\<rparr>,
               [GoodAudio_play, ProgressBar_setValue v, ProgressLabel_hide,
                InfoBox_exec ''Correct'' rsn]))"
  unfolding receiveAnswer_def Let_def percent_def using assms by simp

lemma receiveAnswer_incorrect:
  "receiveAnswer w cur False rsn prt loc =
     (w\<lparr>reset := True\<rparr>, [BadAudio_play, InfoBox_exec ''Incorrect'' rsn])"
  unfolding receiveAnswer_def Let_def by simp

lemma state_receiveAnswer:
  "dontMove (fst (receiveAnswer w cur correct rsn prt loc)) = (if correct then dontMove w @ [prt] else dontMove w)"
  "location (fst (receiveAnswer w cur correct rsn prt loc)) = (if correct then loc else location w)"
  "reset (fst (receiveAnswer w cur correct rsn prt loc)) = (if correct then reset w else True)"
  "lastName (fst (receiveAnswer w cur correct rsn prt loc)) = lastName w"
  "lastSize (fst (receiveAnswer w cur correct rsn prt loc)) = lastSize w"
proof -
  consider (final) "correct" "cur - 1 = 6" | (good) "correct" "cur - 1 \<noteq> 6" | (bad) "\<not> correct"
    by blast
  then have
    "dontMove (fst (receiveAnswer w cur correct rsn prt loc)) = (if correct then dontMove w @ [prt] else dontMove w) \<and>
     location (fst (receiveAnswer w cur correct rsn prt loc)) = (if correct then loc else location w) \<and>
     reset (fst (receiveAnswer w cur correct rsn prt loc)) = (if correct then reset w else True) \<and>
     lastName (fst (receiveAnswer w cur correct rsn prt loc)) = lastName w \<and>
     lastSize (fst (receiveAnswer w cur correct rsn prt loc)) = lastSize w"
  proof cases
    case final
    then show ?thesis by (simp add: receiveAnswer_final Let_def)
  next
    case good
    then show ?thesis
      using receiveAnswer_correct [OF good(2), of w rsn prt loc] by (simp add: Let_def)
  next
    case bad
    then show ?thesis by (simp add: receiveAnswer_incorrect)
  qed
  then show
    "dontMove (fst (receiveAnswer w cur correct rsn prt loc)) = (if correct then dontMove w @ [prt] else dontMove w)"
    "location (fst (receiveAnswer w cur correct rsn prt loc)) = (if correct then loc else location w)"
    "reset (fst (receiveAnswer w cur correct rsn prt loc)) = (if correct then reset w else True)"
    "lastName (fst (receiveAnswer w cur correct rsn prt loc)) = lastName w"
    "lastSize (fst (receiveAnswer w cur correct rsn prt loc)) = lastSize w"
    by simp_all
qed

lemma completion_calls:
  "Emit_completedTesting \<in> set (snd (receiveAnswer w cur correct rsn prt loc)) \<longleftrightarrow> correct \<and> cur - 1 = 6"
  "WinAudio_play \<in> set (snd (receiveAnswer w cur correct rsn prt loc)) \<longleftrightarrow> correct \<and> cur - 1 = 6"
  "ProgressBar_setValue 100 \<in> set (snd (receiveAnswer w cur correct rsn prt loc)) \<longleftrightarrow> correct \<and> cur - 1 = 6"
  "ProgressLabel_setText ''Nice Job!'' \<in> set (snd (receiveAnswer w cur correct rsn prt loc)) \<longleftrightarrow>
     correct \<and> cur - 1 = 6 \<and> barValue (progressBar (fst (receiveAnswer w cur correct rsn prt loc))) = 100"
proof -
  consider (final) "correct" "cur - 1 = 6" | (good) "correct" "cur - 1 \<noteq> 6" | (bad) "\<not> correct"
    by blast
  then have
    "(Emit_completedTesting \<in> set (snd (receiveAnswer w cur correct rsn prt loc)) \<longleftrightarrow> correct \<and> cur - 1 = 6) \<and>
     (WinAudio_play \<in> set (snd (receiveAnswer w cur correct rsn prt loc)) \<longleftrightarrow> correct \<and> cur - 1 = 6) \<and>
     (ProgressBar_setValue 100 \<in> set (snd (receiveAnswer w cur correct rsn prt loc)) \<longleftrightarrow> correct \<and> cur - 1 = 6) \<and>
     (ProgressLabel_setText ''Nice Job!'' \<in> set (snd (receiveAnswer w cur correct rsn prt loc)) \<longleftrightarrow>
        correct \<and> cur - 1 = 6 \<and> barValue (progressBar (fst (receiveAnswer w cur correct rsn prt loc))) = 100)"
  proof cases
    case final
    then show ?thesis by (simp add: receiveAnswer_final Let_def)
  next
    case good
    define v where "v = percent (cur - 1)"
    have ne: "v \<noteq> 100"
      unfolding v_def percent_full using good by simp
    have "receiveAnswer w cur True rsn prt loc =
       (if barValue (setValue (progressBar w) v) \<ge> 50
        then (w\<lparr>location := loc, dontMove := dontMove w @ [prt],
                progressBar := setValue (progressBar w) v,
                progressLabel := \<lparr>shown = True, labelText = ''Almost There!''\<rparr>\<rparr>,
              [GoodAudio_play, ProgressBar_setValue v,
               ProgressLabel_show, ProgressLabel_setText ''Almost There!'',
               InfoBox_exec ''Correct'' rsn])
        else (w\<lparr>location := loc, dontMove := dontMove w @ [prt],
                progressBar := setValue (progressBar w) v,
                progressLabel := (progressLabel w)\<lparr>shown := False\<rparr>\<rparr>,
              [GoodAudio_play, ProgressBar_setValue v, ProgressLabel_hide,
               InfoBox_exec ''Correct'' rsn]))"
      using receiveAnswer_correct [OF good(2), of w rsn prt loc]
      unfolding Let_def v_def by simp
    with good ne show ?thesis by simp
  next
    case bad
    then show ?thesis by (simp add: receiveAnswer_incorrect)
  qed
  then show
    "Emit_completedTesting \<in> set (snd (receiveAnswer w cur correct rsn prt loc)) \<longleftrightarrow> correct \<and> cur - 1 = 6"
    "WinAudio_play \<in> set (snd (receiveAnswer w cur correct rsn prt loc)) \<longleftrightarrow> correct \<and> cur - 1 = 6"
    "ProgressBar_setValue 100 \<in> set (snd (receiveAnswer w cur correct rsn prt loc)) \<longleftrightarrow> correct \<and> cur - 1 = 6"
    "ProgressLabel_setText ''Nice Job!'' \<in> set (snd (receiveAnswer w cur correct rsn prt loc)) \<longleftrightarrow>
       correct \<and> cur - 1 = 6 \<and> barValue (progressBar (fst (receiveAnswer w cur correct rsn prt loc))) = 100"
    by blast+
qed

lemma setValue_in_range:
  assumes "minimum b \<le> v" "v \<le> maximum b"
  shows "setValue b v = b\<lparr>barValue := v\<rparr>"
  using assms by (auto simp: setValue_def)

lemma completion_outcome:
  assumes "cur - 1 = 6" "minimum (progressBar w) \<le> 100" "100 \<le> maximum (progressBar w)"
  shows "receiveAnswer w cur True rsn prt loc =
     (w\<lparr>location := loc, dontMove := dontMove w @ [prt],
        progressBar := (progressBar w)\<lparr>barValue := 100\<rparr>,
        progressLabel := \<lparr>shown = True, labelText = ''Nice Job!''\<rparr>\<rparr>,
      [WinAudio_play, Emit_completedTesting, ProgressBar_setValue 100,
       ProgressLabel_show, ProgressLabel_setText ''Nice Job!''])"
  using assms by (simp add: receiveAnswer_final Let_def setValue_in_range)

lemma completion_trace:
  "map (\<lambda>r. Emit_completedTesting \<in> set (snd r)) (deliverAll w as) =
   map (\<lambda>a. correctness a \<and> stepNow a - 1 = 6) as"
  by (induction as arbitrary: w) (simp_all add: deliver_def completion_calls)

lemma completion_locked_general:
  assumes "countsCorrect c as" "int (length (dontMove w)) = base + (c - 1)"
  shows "map (\<lambda>r. Emit_completedTesting \<in> set (snd r)) (deliverAll w as) =
         map (\<lambda>(a, r). correctness a \<and> int (length (dontMove (fst r))) = base + 6) (zip as (deliverAll w as))"
  using assms
proof (induction as arbitrary: c w)
  case Nil
  then show ?case by simp
next
  case (Cons a as)
  let ?w = "fst (deliver w a)"
  show ?case
  proof (cases "correctness a")
    case True
    with Cons.prems have s: "stepNow a = c + 1" and rest: "countsCorrect (c + 1) as"
      by simp_all
    have len: "int (length (dontMove ?w)) = base + ((c + 1) - 1)"
      using True Cons.prems(2) by (simp add: deliver_def state_receiveAnswer)
    have "Emit_completedTesting \<in> set (snd (deliver w a)) \<longleftrightarrow> c = 6"
      using True s by (simp add: deliver_def completion_calls)
    moreover have "int (length (dontMove ?w)) = base + 6 \<longleftrightarrow> c = 6"
      using len by auto
    ultimately show ?thesis
      using True Cons.IH [OF rest len] by simp
  next
    case False
    with Cons.prems have rest: "countsCorrect c as"
      by simp
    have len: "int (length (dontMove ?w)) = base + (c - 1)"
      using False Cons.prems(2) by (simp add: deliver_def state_receiveAnswer)
    have "Emit_completedTesting \<notin> set (snd (deliver w a))"
      using False by (simp add: deliver_def completion_calls)
    then show ?thesis
      using False Cons.IH [OF rest len] by simp
  qed
qed

lemma completion_locked:
  assumes "countsCorrect 1 as"
  shows "map (\<lambda>r. Emit_completedTesting \<in> set (snd r)) (deliverAll w as) =
         map (\<lambda>(a, r). correctness a \<and> length (dontMove (fst r)) = length (dontMove w) + 6)
           (zip as (deliverAll w as))"
proof -
  have "map (\<lambda>r. Emit_completedTesting \<in> set (snd r)) (deliverAll w as) =
         map (\<lambda>(a, r). correctness a \<and> int (length (dontMove (fst r))) = int (length (dontMove w)) + 6)
           (zip as (deliverAll w as))"
    using assms by (intro completion_locked_general [where c = 1]) simp_all
  also have "\<dots> = map (\<lambda>(a, r). correctness a \<and> length (dontMove (fst r)) = length (dontMove w) + 6)
           (zip as (deliverAll w as))"
    by (intro map_cong refl) (auto simp: case_prod_beta)
  finally show ?thesis .
qed

text \<open>
  C2. The completion outcome is triggered by a call of \<open>receiveAnswer\<close> if and only if the
  placement is judged correct while \<^verbatim>\<open>getCurrentStep() - 1 == 6\<close>: exactly then the call
  emits \<^verbatim>\<open>completedTesting\<close>, plays the win sound and passes 100 to the progress bar; the
  text "Nice Job!" is set exactly then, provided the bar holds 100 afterwards, which it does
  when 100 lies in the bar's range; the bar then holds 100 and the label is shown with that
  text. Over any sequence of answers, the signal is emitted by exactly the calls that meet
  the condition, so by no earlier correct or incorrect placement. When the checker's
  counter starts at 1 and is advanced by each correct placement, these are exactly the
  correct placements that bring the number of locked components (the entries added to
  \<open>dontMove\<close>) to 6.
\<close>

theorem completion_exact:
  "(Emit_completedTesting \<in> set (snd (receiveAnswer w cur correct rsn prt loc)) \<longleftrightarrow> correct \<and> cur - 1 = 6) \<and>
   (WinAudio_play \<in> set (snd (receiveAnswer w cur correct rsn prt loc)) \<longleftrightarrow> correct \<and> cur - 1 = 6) \<and>
   (ProgressBar_setValue 100 \<in> set (snd (receiveAnswer w cur correct rsn prt loc)) \<longleftrightarrow> correct \<and> cur - 1 = 6) \<and>
   (ProgressLabel_setText ''Nice Job!'' \<in> set (snd (receiveAnswer w cur correct rsn prt loc)) \<longleftrightarrow>
      correct \<and> cur - 1 = 6 \<and> barValue (progressBar (fst (receiveAnswer w cur correct rsn prt loc))) = 100) \<and>
   (correct \<and> cur - 1 = 6 \<and> minimum (progressBar w) \<le> 100 \<and> 100 \<le> maximum (progressBar w) \<longrightarrow>
      barValue (progressBar (fst (receiveAnswer w cur correct rsn prt loc))) = 100 \<and>
      progressLabel (fst (receiveAnswer w cur correct rsn prt loc)) = \<lparr>shown = True, labelText = ''Nice Job!''\<rparr> \<and>
      snd (receiveAnswer w cur correct rsn prt loc) =
        [WinAudio_play, Emit_completedTesting, ProgressBar_setValue 100,
         ProgressLabel_show, ProgressLabel_setText ''Nice Job!'']) \<and>
   map (\<lambda>r. Emit_completedTesting \<in> set (snd r)) (deliverAll w as) =
     map (\<lambda>a. correctness a \<and> stepNow a - 1 = 6) as \<and>
   (countsCorrect 1 as \<longrightarrow>
      map (\<lambda>r. Emit_completedTesting \<in> set (snd r)) (deliverAll w as) =
      map (\<lambda>(a, r). correctness a \<and> length (dontMove (fst r)) = length (dontMove w) + 6)
        (zip as (deliverAll w as)))"
proof (intro conjI impI)
  assume "countsCorrect 1 as"
  then show "map (\<lambda>r. Emit_completedTesting \<in> set (snd r)) (deliverAll w as) =
      map (\<lambda>(a, r). correctness a \<and> length (dontMove (fst r)) = length (dontMove w) + 6)
        (zip as (deliverAll w as))"
    by (rule completion_locked)
next
  assume a: "correct \<and> cur - 1 = 6 \<and> minimum (progressBar w) \<le> 100 \<and> 100 \<le> maximum (progressBar w)"
  then have r: "receiveAnswer w cur correct rsn prt loc =
     (w\<lparr>location := loc, dontMove := dontMove w @ [prt],
        progressBar := (progressBar w)\<lparr>barValue := 100\<rparr>,
        progressLabel := \<lparr>shown = True, labelText = ''Nice Job!''\<rparr>\<rparr>,
      [WinAudio_play, Emit_completedTesting, ProgressBar_setValue 100,
       ProgressLabel_show, ProgressLabel_setText ''Nice Job!''])"
    using completion_outcome [of cur w rsn prt loc] by simp
  show "barValue (progressBar (fst (receiveAnswer w cur correct rsn prt loc))) = 100"
    unfolding r by simp
  show "progressLabel (fst (receiveAnswer w cur correct rsn prt loc)) = \<lparr>shown = True, labelText = ''Nice Job!''\<rparr>"
    unfolding r by simp
  show "snd (receiveAnswer w cur correct rsn prt loc) =
        [WinAudio_play, Emit_completedTesting, ProgressBar_setValue 100,
         ProgressLabel_show, ProgressLabel_setText ''Nice Job!'']"
    unfolding r by simp
qed (rule completion_calls completion_trace)+

text \<open>
  An instance: a correct placement at counter value 6 and an incorrect one at 7 do not
  complete, the correct placement at counter value 7 does; and in a session of six correct
  placements and one incorrect one, only the last call completes, the one that brings
  \<open>dontMove\<close> to six more entries.
\<close>

theorem completion_exact_witness:
  "Emit_completedTesting \<notin> set (snd (receiveAnswer window0 6 True ''ok'' ''gpuLabel'' (QPoint 200 370))) \<and>
   Emit_completedTesting \<notin> set (snd (receiveAnswer window0 7 False ''no'' ''ramLabel2'' (QPoint 0 0))) \<and>
   snd (receiveAnswer window0 7 True ''ok'' ''ramLabel2'' (QPoint 443 270)) =
     [WinAudio_play, Emit_completedTesting, ProgressBar_setValue 100,
      ProgressLabel_show, ProgressLabel_setText ''Nice Job!''] \<and>
   barValue (progressBar (fst (receiveAnswer window0 7 True ''ok'' ''ramLabel2'' (QPoint 443 270)))) = 100 \<and>
   map (\<lambda>(a, r). correctness a \<and> length (dontMove (fst r)) = length (dontMove window0) + 6)
     (zip
       [\<lparr>stepNow = 2, correctness = True, reason = ''ok'', part = ''motherboardLabel'', answerLocation = QPoint 200 245\<rparr>,
        \<lparr>stepNow = 3, correctness = True, reason = ''ok'', part = ''cpuLabel'', answerLocation = QPoint 315 295\<rparr>,
        \<lparr>stepNow = 3, correctness = False, reason = ''no'', part = ''gpuLabel'', answerLocation = QPoint 560 60\<rparr>,
        \<lparr>stepNow = 4, correctness = True, reason = ''ok'', part = ''memoryLabel'', answerLocation = QPoint 260 370\<rparr>,
        \<lparr>stepNow = 5, correctness = True, reason = ''ok'', part = ''gpuLabel'', answerLocation = QPoint 200 370\<rparr>,
        \<lparr>stepNow = 6, correctness = True, reason = ''ok'', part = ''ramLabel1'', answerLocation = QPoint 423 270\<rparr>,
        \<lparr>stepNow = 7, correctness = True, reason = ''ok'', part = ''ramLabel2'', answerLocation = QPoint 443 270\<rparr>]
       (deliverAll window0
       [\<lparr>stepNow = 2, correctness = True, reason = ''ok'', part = ''motherboardLabel'', answerLocation = QPoint 200 245\<rparr>,
        \<lparr>stepNow = 3, correctness = True, reason = ''ok'', part = ''cpuLabel'', answerLocation = QPoint 315 295\<rparr>,
        \<lparr>stepNow = 3, correctness = False, reason = ''no'', part = ''gpuLabel'', answerLocation = QPoint 560 60\<rparr>,
        \<lparr>stepNow = 4, correctness = True, reason = ''ok'', part = ''memoryLabel'', answerLocation = QPoint 260 370\<rparr>,
        \<lparr>stepNow = 5, correctness = True, reason = ''ok'', part = ''gpuLabel'', answerLocation = QPoint 200 370\<rparr>,
        \<lparr>stepNow = 6, correctness = True, reason = ''ok'', part = ''ramLabel1'', answerLocation = QPoint 423 270\<rparr>,
        \<lparr>stepNow = 7, correctness = True, reason = ''ok'', part = ''ramLabel2'', answerLocation = QPoint 443 270\<rparr>])) =
     [False, False, False, False, False, False, True]"
proof -
  let ?as = "[\<lparr>stepNow = 2, correctness = True, reason = ''ok'', part = ''motherboardLabel'', answerLocation = QPoint 200 245\<rparr>,
        \<lparr>stepNow = 3, correctness = True, reason = ''ok'', part = ''cpuLabel'', answerLocation = QPoint 315 295\<rparr>,
        \<lparr>stepNow = 3, correctness = False, reason = ''no'', part = ''gpuLabel'', answerLocation = QPoint 560 60\<rparr>,
        \<lparr>stepNow = 4, correctness = True, reason = ''ok'', part = ''memoryLabel'', answerLocation = QPoint 260 370\<rparr>,
        \<lparr>stepNow = 5, correctness = True, reason = ''ok'', part = ''gpuLabel'', answerLocation = QPoint 200 370\<rparr>,
        \<lparr>stepNow = 6, correctness = True, reason = ''ok'', part = ''ramLabel1'', answerLocation = QPoint 423 270\<rparr>,
        \<lparr>stepNow = 7, correctness = True, reason = ''ok'', part = ''ramLabel2'', answerLocation = QPoint 443 270\<rparr>]"
  have range: "minimum (progressBar window0) \<le> 100 \<and> 100 \<le> maximum (progressBar window0)"
    by (simp add: window0_def TestWindow_new_def emptyBar_def)
  have counts: "countsCorrect 1 ?as"
    by simp
  have "Emit_completedTesting \<notin> set (snd (receiveAnswer window0 6 True ''ok'' ''gpuLabel'' (QPoint 200 370)))"
    using completion_exact [of window0 6 True "''ok''" "''gpuLabel''" "QPoint 200 370" "[]"] by simp
  moreover
  have "Emit_completedTesting \<notin> set (snd (receiveAnswer window0 7 False ''no'' ''ramLabel2'' (QPoint 0 0)))"
    using completion_exact [of window0 7 False "''no''" "''ramLabel2''" "QPoint 0 0" "[]"] by simp
  moreover
  note last = completion_exact [of window0 7 True "''ok''" "''ramLabel2''" "QPoint 443 270" ?as]
  have "snd (receiveAnswer window0 7 True ''ok'' ''ramLabel2'' (QPoint 443 270)) =
     [WinAudio_play, Emit_completedTesting, ProgressBar_setValue 100,
      ProgressLabel_show, ProgressLabel_setText ''Nice Job!''] \<and>
   barValue (progressBar (fst (receiveAnswer window0 7 True ''ok'' ''ramLabel2'' (QPoint 443 270)))) = 100"
    using completion_exact [of window0 7 True "''ok''" "''ramLabel2''" "QPoint 443 270" "[]"] range by simp
  moreover
  from last have "map (\<lambda>r. Emit_completedTesting \<in> set (snd r)) (deliverAll window0 ?as) =
      map (\<lambda>a. correctness a \<and> stepNow a - 1 = 6) ?as"
    by blast
  then have fired: "map (\<lambda>r. Emit_completedTesting \<in> set (snd r)) (deliverAll window0 ?as) =
      [False, False, False, False, False, False, True]"
    by simp
  from last counts have "map (\<lambda>r. Emit_completedTesting \<in> set (snd r)) (deliverAll window0 ?as) =
      map (\<lambda>(a, r). correctness a \<and> length (dontMove (fst r)) = length (dontMove window0) + 6)
        (zip ?as (deliverAll window0 ?as))"
    by blast
  with fired have "map (\<lambda>(a, r). correctness a \<and> length (dontMove (fst r)) = length (dontMove window0) + 6)
        (zip ?as (deliverAll window0 ?as)) = [False, False, False, False, False, False, True]"
    by simp
  ultimately show ?thesis by blast
qed

section \<open>The progress bar over a sequence of answers\<close>

lemma written_receiveAnswer:
  "written (snd (receiveAnswer w cur correct rsn prt loc)) =
     (if correct then [percent (cur - 1)] else [])"
proof -
  consider (final) "correct" "cur - 1 = 6" | (good) "correct" "cur - 1 \<noteq> 6" | (bad) "\<not> correct"
    by blast
  then show ?thesis
  proof cases
    case final
    have "percent 6 = 100"
      by (simp only: percent_full)
    with final show ?thesis
      by (simp add: receiveAnswer_final Let_def)
  next
    case good
    then show ?thesis
      using receiveAnswer_correct [OF good(2), of w rsn prt loc] by (simp add: Let_def)
  next
    case bad
    then show ?thesis by (simp add: receiveAnswer_incorrect)
  qed
qed

lemma bar_receiveAnswer:
  "progressBar (fst (receiveAnswer w cur correct rsn prt loc)) =
     (if correct then setValue (progressBar w) (percent (cur - 1))
      else progressBar w)"
proof -
  consider (final) "correct" "cur - 1 = 6" | (good) "correct" "cur - 1 \<noteq> 6" | (bad) "\<not> correct"
    by blast
  then show ?thesis
  proof cases
    case final
    have "percent 6 = 100"
      by (simp only: percent_full)
    with final show ?thesis
      by (simp add: receiveAnswer_final Let_def)
  next
    case good
    then show ?thesis
      using receiveAnswer_correct [OF good(2), of w rsn prt loc] by (simp add: Let_def)
  next
    case bad
    then show ?thesis by (simp add: receiveAnswer_incorrect)
  qed
qed

lemma written_deliverAll:
  "concat (map (written \<circ> snd) (deliverAll w as)) =
     map (\<lambda>a. percent (stepNow a - 1)) (filter correctness as)"
  by (induction as arbitrary: w) (simp_all add: deliver_def written_receiveAnswer)

lemma sorted_percent:
  "sorted (map stepNow xs) \<Longrightarrow>
   sorted (map (\<lambda>a. percent (stepNow a - 1)) xs)"
  by (induction xs) (auto intro!: percent_mono)

lemma written_sorted:
  assumes "sorted (map stepNow as)"
  shows "sorted (concat (map (written \<circ> snd) (deliverAll w as)))"
proof -
  from assms have "sorted (map stepNow (filter correctness as))"
    by (rule sorted_filter)
  then show ?thesis
    unfolding written_deliverAll by (rule sorted_percent)
qed

lemma bar_deliver:
  "progressBar (fst (deliver u a)) =
     (if correctness a then setValue (progressBar u) (percent (stepNow a - 1)) else progressBar u)"
  by (simp add: deliver_def bar_receiveAnswer)

lemma setValue_0_100:
  assumes "minimum b = 0" "maximum b = 100"
  shows "minimum (setValue b v) = 0" and "maximum (setValue b v) = 100"
    and "barValue (setValue b v) = (if 0 \<le> v \<and> v \<le> 100 then v else barValue b)"
  using assms by (auto simp: setValue_def)

lemma bar_deliver_correct:
  assumes "correctness a" "1 \<le> stepNow a" "stepNow a \<le> 7"
    and "minimum (progressBar u) = 0" "maximum (progressBar u) = 100"
  shows "barValue (progressBar (fst (deliver u a))) = (100 * (stepNow a - 1)) div 6"
proof -
  have r: "0 \<le> stepNow a - 1" "stepNow a - 1 \<le> 6"
    using assms(2,3) by simp_all
  have "barValue (progressBar (fst (deliver u a))) = percent (stepNow a - 1)"
    using assms(1) percent_range(2,3) [OF r]
    by (simp add: bar_deliver setValue_0_100 [OF assms(4,5)])
  then show ?thesis
    unfolding percent_range(1) [OF r] .
qed

text \<open>
  The bar over a sequence of answers: the invariant is that the bar is not above any value
  that a later answer can make it accept.
\<close>

lemma bar_sorted:
  assumes "minimum (progressBar w) = 0" "maximum (progressBar w) = 100"
    and "sorted (map stepNow as)"
    and "\<forall>a\<in>set as. 0 \<le> percent (stepNow a - 1) \<longrightarrow> barValue (progressBar w) \<le> percent (stepNow a - 1)"
    and "barValue (progressBar w) \<le> 100"
  shows "sorted (barValue (progressBar w) # map (barValue \<circ> progressBar \<circ> fst) (deliverAll w as)) \<and>
         (\<forall>r\<in>set (deliverAll w as). barValue (progressBar (fst r)) \<le> 100)"
  using assms
proof (induction as arbitrary: w)
  case Nil
  then show ?case by simp
next
  case (Cons a as)
  let ?w = "fst (deliver w a)"
  let ?v = "percent (stepNow a - 1)"
  note sv = setValue_0_100 [OF Cons.prems(1,2)]
  have val: "barValue (progressBar ?w) =
      (if correctness a \<and> 0 \<le> ?v \<and> ?v \<le> 100 then ?v else barValue (progressBar w))"
    by (simp add: bar_deliver sv)
  have "0 \<le> ?v \<longrightarrow> barValue (progressBar w) \<le> ?v"
    using Cons.prems(4) by simp
  then have up: "barValue (progressBar w) \<le> barValue (progressBar ?w)"
    by (simp add: val)
  have top: "barValue (progressBar ?w) \<le> 100"
    using Cons.prems(5) by (simp add: val)
  have later: "\<forall>b\<in>set as. 0 \<le> percent (stepNow b - 1) \<longrightarrow>
      barValue (progressBar ?w) \<le> percent (stepNow b - 1)"
  proof (intro ballI impI)
    fix b assume b: "b \<in> set as" "0 \<le> percent (stepNow b - 1)"
    then have "stepNow a \<le> stepNow b"
      using Cons.prems(3) by simp
    then have "?v \<le> percent (stepNow b - 1)"
      by (intro percent_mono) simp
    moreover have "barValue (progressBar w) \<le> percent (stepNow b - 1)"
      using Cons.prems(4) b by simp
    ultimately show "barValue (progressBar ?w) \<le> percent (stepNow b - 1)"
      by (simp add: val)
  qed
  have "sorted (barValue (progressBar ?w) # map (barValue \<circ> progressBar \<circ> fst) (deliverAll ?w as)) \<and>
        (\<forall>r\<in>set (deliverAll ?w as). barValue (progressBar (fst r)) \<le> 100)"
  proof (rule Cons.IH)
    show "minimum (progressBar ?w) = 0" "maximum (progressBar ?w) = 100"
      by (simp_all add: bar_deliver sv Cons.prems(1,2))
    show "sorted (map stepNow as)"
      using Cons.prems(3) by simp
  qed (rule later top)+
  with up top show ?case
    by (auto simp: comp_def)
qed

text \<open>
  C3 (as amended). Over any sequence of answers received by \<open>receiveAnswer\<close> whose step
  counter never decreases, the values passed to the progress bar never decrease, and the
  value held by a bar with range 0 to 100 that starts at a value not above 0 never
  decreases and never exceeds 100. An incorrect placement passes no value and leaves the
  bar unchanged. A correct placement with a step counter from 1 to 7 passes
  \<open>100 * (cur - 1) div 6\<close>, that is \<open>(cur - 1) / 6\<close> of 100 truncated to a whole number,
  which lies between 0 and 100, and a bar with range 0 to 100 then holds that value.
\<close>

theorem progress_monotone:
  "(sorted (map stepNow as) \<longrightarrow> sorted (concat (map (written \<circ> snd) (deliverAll w as)))) \<and>
   (sorted (map stepNow as) \<and>
    minimum (progressBar w) = 0 \<and> maximum (progressBar w) = 100 \<and> barValue (progressBar w) \<le> 0 \<longrightarrow>
      sorted (barValue (progressBar w) # map (barValue \<circ> progressBar \<circ> fst) (deliverAll w as)) \<and>
      (\<forall>r\<in>set (deliverAll w as). barValue (progressBar (fst r)) \<le> 100)) \<and>
   (\<not> correctness a \<longrightarrow>
      progressBar (fst (deliver u a)) = progressBar u \<and> written (snd (deliver u a)) = []) \<and>
   (correctness a \<and> 1 \<le> stepNow a \<and> stepNow a \<le> 7 \<longrightarrow>
      written (snd (deliver u a)) = [(100 * (stepNow a - 1)) div 6] \<and>
      0 \<le> (100 * (stepNow a - 1)) div 6 \<and> (100 * (stepNow a - 1)) div 6 \<le> 100 \<and>
      (minimum (progressBar u) = 0 \<and> maximum (progressBar u) = 100 \<longrightarrow>
         barValue (progressBar (fst (deliver u a))) = (100 * (stepNow a - 1)) div 6))"
proof (intro conjI impI)
  assume "sorted (map stepNow as)"
  then show "sorted (concat (map (written \<circ> snd) (deliverAll w as)))"
    by (rule written_sorted)
next
  assume b: "sorted (map stepNow as) \<and>
    minimum (progressBar w) = 0 \<and> maximum (progressBar w) = 100 \<and> barValue (progressBar w) \<le> 0"
  then have "\<forall>a\<in>set as. 0 \<le> percent (stepNow a - 1) \<longrightarrow> barValue (progressBar w) \<le> percent (stepNow a - 1)"
    by simp
  moreover from b have "barValue (progressBar w) \<le> 100"
    by simp
  ultimately have both:
    "sorted (barValue (progressBar w) # map (barValue \<circ> progressBar \<circ> fst) (deliverAll w as)) \<and>
     (\<forall>r\<in>set (deliverAll w as). barValue (progressBar (fst r)) \<le> 100)"
    using b by (intro bar_sorted) simp_all
  then show "sorted (barValue (progressBar w) # map (barValue \<circ> progressBar \<circ> fst) (deliverAll w as))"
    by (rule conjunct1)
  from both show "\<forall>r\<in>set (deliverAll w as). barValue (progressBar (fst r)) \<le> 100"
    by (rule conjunct2)
next
  assume "\<not> correctness a"
  then show "progressBar (fst (deliver u a)) = progressBar u" "written (snd (deliver u a)) = []"
    by (simp_all add: deliver_def bar_receiveAnswer written_receiveAnswer)
next
  assume a: "correctness a \<and> 1 \<le> stepNow a \<and> stepNow a \<le> 7"
  then have r: "0 \<le> stepNow a - 1" "stepNow a - 1 \<le> 6"
    by simp_all
  note p = percent_range(1) [OF r] and q = percent_range(2,3) [OF r]
  show "0 \<le> (100 * (stepNow a - 1)) div 6"
    using q(1) unfolding p .
  show "(100 * (stepNow a - 1)) div 6 \<le> 100"
    using q(2) unfolding p .
  from a p show "written (snd (deliver u a)) = [(100 * (stepNow a - 1)) div 6]"
    by (simp add: deliver_def written_receiveAnswer)
  assume "minimum (progressBar u) = 0 \<and> maximum (progressBar u) = 100"
  with a show "barValue (progressBar (fst (deliver u a))) = (100 * (stepNow a - 1)) div 6"
    by (intro bar_deliver_correct) simp_all
qed

text \<open>
  An instance: a correct placement at counter value 2, an incorrect one, and correct ones
  at counter values 3 and 7, from the fresh window.
\<close>

theorem progress_monotone_witness:
  "sorted (concat (map (written \<circ> snd) (deliverAll window0
     [\<lparr>stepNow = 2, correctness = True, reason = ''ok'', part = ''motherboardLabel'', answerLocation = QPoint 200 245\<rparr>,
      \<lparr>stepNow = 2, correctness = False, reason = ''no'', part = ''gpuLabel'', answerLocation = QPoint 0 0\<rparr>,
      \<lparr>stepNow = 3, correctness = True, reason = ''ok'', part = ''cpuLabel'', answerLocation = QPoint 315 295\<rparr>,
      \<lparr>stepNow = 7, correctness = True, reason = ''ok'', part = ''ramLabel2'', answerLocation = QPoint 443 270\<rparr>]))) \<and>
   sorted (barValue (progressBar window0) # map (barValue \<circ> progressBar \<circ> fst) (deliverAll window0
     [\<lparr>stepNow = 2, correctness = True, reason = ''ok'', part = ''motherboardLabel'', answerLocation = QPoint 200 245\<rparr>,
      \<lparr>stepNow = 2, correctness = False, reason = ''no'', part = ''gpuLabel'', answerLocation = QPoint 0 0\<rparr>,
      \<lparr>stepNow = 3, correctness = True, reason = ''ok'', part = ''cpuLabel'', answerLocation = QPoint 315 295\<rparr>,
      \<lparr>stepNow = 7, correctness = True, reason = ''ok'', part = ''ramLabel2'', answerLocation = QPoint 443 270\<rparr>])) \<and>
   written (snd (deliver window0
      \<lparr>stepNow = 3, correctness = True, reason = ''ok'', part = ''cpuLabel'', answerLocation = QPoint 315 295\<rparr>)) = [33] \<and>
   barValue (progressBar (fst (deliver window0
      \<lparr>stepNow = 3, correctness = True, reason = ''ok'', part = ''cpuLabel'', answerLocation = QPoint 315 295\<rparr>))) = 33 \<and>
   progressBar (fst (deliver window0
      \<lparr>stepNow = 2, correctness = False, reason = ''no'', part = ''gpuLabel'', answerLocation = QPoint 0 0\<rparr>)) =
     progressBar window0"
proof -
  let ?ok3 = "\<lparr>stepNow = 3, correctness = True, reason = ''ok'', part = ''cpuLabel'', answerLocation = QPoint 315 295\<rparr>"
  let ?no2 = "\<lparr>stepNow = 2, correctness = False, reason = ''no'', part = ''gpuLabel'', answerLocation = QPoint 0 0\<rparr>"
  let ?as = "[\<lparr>stepNow = 2, correctness = True, reason = ''ok'', part = ''motherboardLabel'', answerLocation = QPoint 200 245\<rparr>,
      ?no2, ?ok3,
      \<lparr>stepNow = 7, correctness = True, reason = ''ok'', part = ''ramLabel2'', answerLocation = QPoint 443 270\<rparr>]"
  have steps: "sorted (map stepNow ?as)"
    by simp
  have bar: "minimum (progressBar window0) = 0 \<and> maximum (progressBar window0) = 100"
    "barValue (progressBar window0) \<le> 0"
    by (simp_all add: window0_def TestWindow_new_def emptyBar_def)
  have ok3: "correctness ?ok3 \<and> 1 \<le> stepNow ?ok3 \<and> stepNow ?ok3 \<le> 7" and no2: "\<not> correctness ?no2"
    by simp_all
  note good = progress_monotone [where as = ?as and w = window0 and a = ?ok3 and u = window0]
  note bad = progress_monotone [where as = ?as and w = window0 and a = ?no2 and u = window0]
  from good steps have "sorted (concat (map (written \<circ> snd) (deliverAll window0 ?as)))"
    by blast
  moreover from good steps bar
  have "sorted (barValue (progressBar window0) # map (barValue \<circ> progressBar \<circ> fst) (deliverAll window0 ?as))"
    by blast
  moreover from good ok3 bar(1)
  have "written (snd (deliver window0 ?ok3)) = [(100 * (stepNow ?ok3 - 1)) div 6] \<and>
        barValue (progressBar (fst (deliver window0 ?ok3))) = (100 * (stepNow ?ok3 - 1)) div 6"
    by blast
  then have "written (snd (deliver window0 ?ok3)) = [33] \<and>
        barValue (progressBar (fst (deliver window0 ?ok3))) = 33"
    by simp
  moreover from bad no2 have "progressBar (fst (deliver window0 ?no2)) = progressBar window0"
    by blast
  ultimately show ?thesis by blast
qed

text \<open>
  C3 as stated fails. Its only assumption is that the step counter never decreases. A
  correct answer at counter value 8 passes 116 to the bar, above 100; a bar with range 0 to
  100 ignores that value and stays where it was, so it is not set to 7/6 of 100 either. And
  a correct answer at counter value 2 sets the bar to 16, not to one sixth of 100.
\<close>

theorem progress_monotone_counterexample:
  "sorted (map stepNow
     [\<lparr>stepNow = 8, correctness = True, reason = ''ok'', part = ''cpuLabel'', answerLocation = QPoint 315 295\<rparr>]) \<and>
   written (snd (deliver window0
     \<lparr>stepNow = 8, correctness = True, reason = ''ok'', part = ''cpuLabel'', answerLocation = QPoint 315 295\<rparr>)) = [116] \<and>
   (100 :: int) < 116 \<and>
   barValue (progressBar (fst (deliver window0
     \<lparr>stepNow = 8, correctness = True, reason = ''ok'', part = ''cpuLabel'', answerLocation = QPoint 315 295\<rparr>))) = 0 \<and>
   barValue (progressBar (fst (deliver window0
     \<lparr>stepNow = 2, correctness = True, reason = ''ok'', part = ''motherboardLabel'', answerLocation = QPoint 200 245\<rparr>))) = 16 \<and>
   real_of_int 16 \<noteq> 1 / 6 * 100"
  by (simp add: deliver_def written_receiveAnswer bar_receiveAnswer percent_int setValue_def
      window0_def TestWindow_new_def emptyBar_def)

section \<open>Locked components and the revert of an incorrect placement\<close>

















end
